theory Spec2Isabelle
  imports Complex_Main
begin

section \<open>The growth-chart data hook \<open>useGrowthData\<close>\<close>

text \<open>
  A shallow embedding of \<^verbatim>\<open>src/charts/growth-chart.resource.ts\<close>. The file holds one
  function, \<^verbatim>\<open>useGrowthData(patientUuid)\<close>: it builds a query URL, hands it (or
  \<^verbatim>\<open>null\<close>) to the \<^verbatim>\<open>useSWR\<close> hook as cache key, and reshapes the payload that
  \<^verbatim>\<open>useSWR\<close> reports into two lists of measurements.

  Conventions of the embedding:
  \<^item> a JavaScript value that may be \<^verbatim>\<open>undefined\<close> or \<^verbatim>\<open>null\<close> is an \<open>option\<close>;
    both are \<open>None\<close>, since the source tells them apart nowhere (truthiness tests and
    \<^verbatim>\<open>?.\<close> treat them alike). A field is optional wherever the source tests it;
  \<^item> a JavaScript \<^verbatim>\<open>number\<close> is a \<open>real\<close>: the source only tests it for truthiness
    and copies it, and a JSON payload holds no \<^verbatim>\<open>NaN\<close>;
  \<^item> what the file imports is a parameter: the constant \<^verbatim>\<open>fhirBaseUrl\<close>, the hook
    \<^verbatim>\<open>useSWR\<close> (with the fetcher \<^verbatim>\<open>openmrsFetch\<close> it is given) as a function from the
    cache key to the response it reports in this render, and the runtime's
    \<^verbatim>\<open>new Date(s).toLocaleDateString()\<close> as a function on strings;
  \<^item> a \<^verbatim>\<open>TypeError\<close> raised by the runtime is the \<open>Inl\<close> of a sum.
\<close>

subsection \<open>Data\<close>

text \<open>The FHIR types the source reads (\<^verbatim>\<open>fhir.Observation\<close> and its parts), with the
  fields it reads.\<close>

record Quantity =
  Quantity_value :: "real option"
  Quantity_unit :: "string option"

record Coding =
  Coding_code :: "string option"

record CodeableConcept =
  coding :: "Coding list option"

record Observation =
  effectiveDateTime :: "string option"
  valueQuantity :: "Quantity option"
  code :: "CodeableConcept option"

text \<open>An element of the response array, \<^verbatim>\<open>{ resource: fhir.Observation }\<close>. The source
  reads \<^verbatim>\<open>resource?.code\<close> in line 58, so an absent resource is a value of the model.\<close>

record Entry =
  resource :: "Observation option"

text \<open>The payload \<^verbatim>\<open>{ data: Array<{ resource }> }\<close>; line 46 reads \<^verbatim>\<open>data.data?.\<close>.\<close>

record Payload =
  data :: "Entry list option"

text \<open>What \<^verbatim>\<open>useSWR\<close> returns, as far as line 35 destructures it.\<close>

record 'e SWRResponse =
  swr_data :: "Payload option"
  swr_error :: "'e option"
  swr_isLoading :: bool

text \<open>The element type of both output arrays (lines 41, 42 and 51 to 55).\<close>

record Measurement =
  date :: string
  "value" :: real
  unit :: string

text \<open>The object \<^verbatim>\<open>growthData\<close> of lines 40 to 43.\<close>

record GrowthSeries =
  height :: "Measurement list"
  weight :: "Measurement list"

text \<open>The object returned in lines 68 to 72.\<close>

record 'e GrowthResult =
  growthData :: GrowthSeries
  isLoading :: bool
  error :: "'e option"

datatype js_error = TypeError

subsection \<open>JavaScript primitives the source uses\<close>

text \<open>Truthiness of a possibly absent string: \<^verbatim>\<open>undefined\<close>, \<^verbatim>\<open>null\<close> and \<^verbatim>\<open>""\<close> are
  falsy.\<close>

definition truthy_string :: "string option \<Rightarrow> bool" where
  "truthy_string s = (case s of None \<Rightarrow> False | Some t \<Rightarrow> t \<noteq> [])"

text \<open>Truthiness of a possibly absent number: \<^verbatim>\<open>undefined\<close>, \<^verbatim>\<open>null\<close> and \<^verbatim>\<open>0\<close> are
  falsy.\<close>

definition truthy_number :: "real option \<Rightarrow> bool" where
  "truthy_number x = (case x of None \<Rightarrow> False | Some v \<Rightarrow> v \<noteq> 0)"

text \<open>A value inside a template literal: \<^verbatim>\<open>undefined\<close> prints as its name.\<close>

definition template_string :: "string option \<Rightarrow> string" where
  "template_string s = (case s of None \<Rightarrow> ''undefined'' | Some t \<Rightarrow> t)"

text \<open>\<^verbatim>\<open>String.prototype.toLowerCase\<close> on a string held as its UTF-8 bytes: the letters
  \<^verbatim>\<open>A\<close> to \<^verbatim>\<open>Z\<close> are lowered and every other byte is kept. The source only compares
  the result with the ASCII words \<^verbatim>\<open>height\<close> and \<^verbatim>\<open>weight\<close>, and no character outside
  ASCII lowers to an ASCII letter of these words, so the comparison is the one
  JavaScript makes.\<close>

definition toLowerCase_char :: "char \<Rightarrow> char" where
  "toLowerCase_char c =
     (let n = (of_char c :: nat) in if 65 \<le> n \<and> n \<le> 90 then char_of (n + 32) else c)"

definition toLowerCase :: "string \<Rightarrow> string" where
  "toLowerCase s = map toLowerCase_char s"

subsection \<open>The body of \<open>useGrowthData\<close>\<close>

text \<open>Lines 47 to 55: the measurement built from an observation, if the test of line 50
  passes. \<open>toLocaleDateString\<close> stands for \<^verbatim>\<open>new Date(s).toLocaleDateString()\<close>. Where
  the test passes, value and unit are present, so the last case has no other branch
  that is reached.\<close>

definition measurement :: "(string \<Rightarrow> string) \<Rightarrow> Observation \<Rightarrow> Measurement option" where
  "measurement toLocaleDateString r =
     (case effectiveDateTime r of
        None \<Rightarrow> None
      | Some dt \<Rightarrow>
          (case valueQuantity r of
             None \<Rightarrow> None
           | Some q \<Rightarrow>
               if truthy_string (Some dt) \<and> truthy_number (Quantity_value q)
                  \<and> truthy_string (Quantity_unit q)
               then (case (Quantity_value q, Quantity_unit q) of
                       (Some v, Some u) \<Rightarrow>
                         Some \<lparr>date = toLocaleDateString dt, value = v, unit = u\<rparr>
                     | _ \<Rightarrow> None)
               else None))"

text \<open>Line 58: \<^verbatim>\<open>resource?.code?.coding?.[0]?.code?.toLowerCase()\<close>. Reading index 0 of
  an empty array gives \<^verbatim>\<open>undefined\<close>.\<close>

definition normalized_code :: "Observation \<Rightarrow> string option" where
  "normalized_code r =
     (case code r of
        None \<Rightarrow> None
      | Some cc \<Rightarrow>
          (case coding cc of
             None \<Rightarrow> None
           | Some [] \<Rightarrow> None
           | Some (c # _) \<Rightarrow> map_option toLowerCase (Coding_code c)))"

text \<open>Lines 46 to 65: the callback of \<^verbatim>\<open>forEach\<close>, with the object \<^verbatim>\<open>growthData\<close> it
  pushes to passed in and returned. Destructuring an absent \<^verbatim>\<open>resource\<close> in line 47
  raises a \<^verbatim>\<open>TypeError\<close>.\<close>

definition callback ::
  "(string \<Rightarrow> string) \<Rightarrow> Entry \<Rightarrow> GrowthSeries \<Rightarrow> js_error + GrowthSeries" where
  "callback toLocaleDateString e g =
     (case resource e of
        None \<Rightarrow> Inl TypeError
      | Some r \<Rightarrow>
          (case measurement toLocaleDateString r of
             None \<Rightarrow> Inr g
           | Some m \<Rightarrow>
               (let c = normalized_code r in
                if c = Some ''height'' then Inr (g\<lparr>height := height g @ [m]\<rparr>)
                else if c = Some ''weight'' then Inr (g\<lparr>weight := weight g @ [m]\<rparr>)
                else Inr g)))"

text \<open>\<^verbatim>\<open>Array.prototype.forEach\<close> with that callback: the entries in order, stopping at
  the first exception.\<close>

fun forEach ::
  "(string \<Rightarrow> string) \<Rightarrow> Entry list \<Rightarrow> GrowthSeries \<Rightarrow> js_error + GrowthSeries" where
  "forEach toLocaleDateString [] g = Inr g"
| "forEach toLocaleDateString (e # es) g =
     (case callback toLocaleDateString e g of
        Inl err \<Rightarrow> Inl err
      | Inr g' \<Rightarrow> forEach toLocaleDateString es g')"

text \<open>Line 37, first argument of \<^verbatim>\<open>useSWR\<close>: \<^verbatim>\<open>patientUuid ? apiUrl : null\<close>, with
  \<^verbatim>\<open>apiUrl\<close> the template of line 33.\<close>

definition swr_key :: "string \<Rightarrow> string option \<Rightarrow> string option" where
  "swr_key fhirBaseUrl patientUuid =
     (let apiUrl = fhirBaseUrl @ ''/Observation?patient='' @ template_string patientUuid
                   @ ''&code=height,weight''
      in if truthy_string patientUuid then Some apiUrl else None)"

text \<open>Lines 40 to 66: the series computed from the \<^verbatim>\<open>data\<close> that \<^verbatim>\<open>useSWR\<close> reported.\<close>

definition growth_series ::
  "(string \<Rightarrow> string) \<Rightarrow> Payload option \<Rightarrow> js_error + GrowthSeries" where
  "growth_series toLocaleDateString d =
     (let growthData = \<lparr>height = [], weight = []\<rparr>
      in case d of
           None \<Rightarrow> Inr growthData
         | Some p \<Rightarrow>
             (case data p of
                None \<Rightarrow> Inr growthData
              | Some es \<Rightarrow> forEach toLocaleDateString es growthData))"

text \<open>The hook, lines 32 to 73.\<close>

definition useGrowthData ::
  "string \<Rightarrow> (string option \<Rightarrow> 'e SWRResponse) \<Rightarrow> (string \<Rightarrow> string) \<Rightarrow> string option
   \<Rightarrow> js_error + 'e GrowthResult" where
  "useGrowthData fhirBaseUrl useSWR toLocaleDateString patientUuid =
     (let r = useSWR (swr_key fhirBaseUrl patientUuid)
      in case growth_series toLocaleDateString (swr_data r) of
           Inl err \<Rightarrow> Inl err
         | Inr g \<Rightarrow> Inr \<lparr>growthData = g, isLoading = swr_isLoading r, error = swr_error r\<rparr>)"

subsection \<open>Stand-ins for the environment, used in examples\<close>

text \<open>A \<^verbatim>\<open>useSWR\<close> whose cache holds the response \<open>r\<close> under every key, and which is idle
  under the null key: no data, no error, not loading.\<close>

definition useSWR_holding :: "'e SWRResponse \<Rightarrow> string option \<Rightarrow> 'e SWRResponse" where
  "useSWR_holding r key =
     (case key of
        None \<Rightarrow> \<lparr>swr_data = None, swr_error = None, swr_isLoading = False\<rparr>
      | Some k \<Rightarrow> r)"

text \<open>A \<^verbatim>\<open>useSWR\<close> that reports, as its error, the key it was handed (and no data): what
  the hook returns against it shows which key the hook supplied.\<close>

definition useSWR_echo :: "string option \<Rightarrow> string SWRResponse" where
  "useSWR_echo key = \<lparr>swr_data = None, swr_error = key, swr_isLoading = False\<rparr>"

text \<open>A response entry of the shape the FHIR endpoint returns: a timestamp, a quantity
  with value and unit, and one coding with a code.\<close>

definition observation :: "string \<Rightarrow> real \<Rightarrow> string \<Rightarrow> string \<Rightarrow> Entry" where
  "observation dt v u c =
     \<lparr>resource = Some
        \<lparr>effectiveDateTime = Some dt,
         valueQuantity = Some \<lparr>Quantity_value = Some v, Quantity_unit = Some u\<rparr>,
         code = Some \<lparr>coding = Some [\<lparr>Coding_code = Some c\<rparr>]\<rparr>\<rparr>\<rparr>"

text \<open>\<^verbatim>\<open>new Date(s).toLocaleDateString()\<close> of a runtime whose locale is \<^verbatim>\<open>en-US\<close> and whose
  time zone is UTC, on a calendar date written \<^verbatim>\<open>YYYY-MM-DD\<close> (ECMAScript reads that form
  as midnight UTC): month, day and year, month and day without a leading zero. Other
  strings are not dates of that form.\<close>

definition strip_zero :: "string \<Rightarrow> string" where
  "strip_zero s = (case s of [] \<Rightarrow> s | c # t \<Rightarrow> if c = CHR ''0'' \<and> t \<noteq> [] then t else s)"

definition toLocaleDateString_en_US :: "string \<Rightarrow> string" where
  "toLocaleDateString_en_US s =
     (if length s = 10
      then strip_zero (take 2 (drop 5 s)) @ ''/'' @ strip_zero (drop 8 s) @ ''/'' @ take 4 s
      else ''Invalid Date'')"

text \<open>The same in a runtime whose locale is \<^verbatim>\<open>en-GB\<close>: day, month and year, two digits
  each for day and month.\<close>

definition toLocaleDateString_en_GB :: "string \<Rightarrow> string" where
  "toLocaleDateString_en_GB s =
     (if length s = 10
      then drop 8 s @ ''/'' @ take 2 (drop 5 s) @ ''/'' @ take 4 s
      else ''Invalid Date'')"

subsection \<open>The sequences as the specification describes them\<close>

text \<open>The specification's description of an output sequence, for comparison with
  \<open>forEach\<close>: the measurement that an entry contributes to the sequence of category
  \<open>c\<close>, if it contributes one; a sequence is these contributions in source order.\<close>

definition contribution :: "(string \<Rightarrow> string) \<Rightarrow> string \<Rightarrow> Entry \<Rightarrow> Measurement option" where
  "contribution toLocaleDateString c e =
     (case resource e of
        None \<Rightarrow> None
      | Some r \<Rightarrow> if normalized_code r = Some c then measurement toLocaleDateString r else None)"

definition sequence_of :: "(string \<Rightarrow> string) \<Rightarrow> string \<Rightarrow> Entry list \<Rightarrow> Measurement list" where
  "sequence_of toLocaleDateString c es = List.map_filter (contribution toLocaleDateString c) es"

section \<open>Auxiliary facts\<close>

subsection \<open>Evaluating the primitives\<close>



lemma toLowerCase_height: "toLowerCase ''height'' = ''height''"
  by code_simp

lemma toLowerCase_weight: "toLowerCase ''weight'' = ''weight''"
  by code_simp


lemma en_US_2024_01_01: "toLocaleDateString_en_US ''2024-01-01'' = ''1/1/2024''"
  by (simp add: toLocaleDateString_en_US_def strip_zero_def)

lemma en_US_2024_01_03: "toLocaleDateString_en_US ''2024-01-03'' = ''1/3/2024''"
  by (simp add: toLocaleDateString_en_US_def strip_zero_def)


lemma en_GB_2024_01_01: "toLocaleDateString_en_GB ''2024-01-01'' = ''01/01/2024''"
  by (simp add: toLocaleDateString_en_GB_def)

subsection \<open>The test of line 50\<close>


lemma measurement_None_iff:
  "measurement f r = None \<longleftrightarrow>
     \<not> (\<exists>dt q v u. effectiveDateTime r = Some dt \<and> dt \<noteq> [] \<and> valueQuantity r = Some q
        \<and> Quantity_value q = Some v \<and> v \<noteq> 0 \<and> Quantity_unit q = Some u \<and> u \<noteq> [])"
  by (auto simp: measurement_def truthy_string_def truthy_number_def split: option.splits)

subsection \<open>The callback and the loop\<close>

lemma observation_resource:
  "resource (observation dt v u c) =
     Some \<lparr>effectiveDateTime = Some dt,
           valueQuantity = Some \<lparr>Quantity_value = Some v, Quantity_unit = Some u\<rparr>,
           code = Some \<lparr>coding = Some [\<lparr>Coding_code = Some c\<rparr>]\<rparr>\<rparr>"
  by (simp add: observation_def)

lemma callback_observation:
  "callback f (observation dt v u c) g =
     (if dt \<noteq> [] \<and> v \<noteq> 0 \<and> u \<noteq> []
      then (if toLowerCase c = ''height''
            then Inr (g\<lparr>height := height g @ [\<lparr>date = f dt, value = v, unit = u\<rparr>]\<rparr>)
            else if toLowerCase c = ''weight''
            then Inr (g\<lparr>weight := weight g @ [\<lparr>date = f dt, value = v, unit = u\<rparr>]\<rparr>)
            else Inr g)
      else Inr g)"
  by (simp add: callback_def observation_def measurement_def normalized_code_def
        truthy_string_def truthy_number_def Let_def)

lemma callback_skip:
  "resource e = Some r \<Longrightarrow> measurement f r = None \<Longrightarrow> callback f e g = Inr g"
  by (simp add: callback_def)

lemma forEach_append:
  "forEach f (xs @ ys) g =
     (case forEach f xs g of Inl err \<Rightarrow> Inl err | Inr g' \<Rightarrow> forEach f ys g')"
  by (induction xs arbitrary: g) (auto split: sum.splits)

lemma forEach_skip:
  assumes "\<And>g. callback f e g = Inr g"
  shows "forEach f (xs @ e # ys) g0 = forEach f (xs @ ys) g0"
  using assms by (simp add: forEach_append split: sum.splits)

subsection \<open>The loop computes the sequences of the specification\<close>

lemma sequence_of_Cons:
  "sequence_of f c (e # es) = sequence_of f c [e] @ sequence_of f c es"
  by (simp add: sequence_of_def split: option.splits)

lemma callback_sequence:
  assumes "resource e = Some r"
  shows "callback f e g =
           Inr \<lparr>height = height g @ sequence_of f ''height'' [e],
                weight = weight g @ sequence_of f ''weight'' [e]\<rparr>"
  using assms
  by (cases "measurement f r")
     (simp_all add: callback_def sequence_of_def contribution_def Let_def)

lemma forEach_sequence:
  assumes "\<forall>e\<in>set es. resource e \<noteq> None"
  shows "forEach f es g =
           Inr \<lparr>height = height g @ sequence_of f ''height'' es,
                weight = weight g @ sequence_of f ''weight'' es\<rparr>"
  using assms
proof (induction es arbitrary: g)
  case Nil
  then show ?case by (simp add: sequence_of_def)
next
  case (Cons e es)
  then obtain r where r: "resource e = Some r" by auto
  from Cons.prems have rest: "\<forall>e\<in>set es. resource e \<noteq> None" by simp
  show ?case
    by (simp add: callback_sequence [OF r] Cons.IH [OF rest]
          sequence_of_Cons [of f _ e es])
qed




subsection \<open>The hook\<close>

lemma swr_key_Some: "p \<noteq> [] \<Longrightarrow>
    swr_key b (Some p) = Some (b @ ''/Observation?patient='' @ p @ ''&code=height,weight'')"
  by (simp add: swr_key_def truthy_string_def template_string_def)

lemma swr_key_falsy: "swr_key b None = None" "swr_key b (Some []) = None"
  by (simp_all add: swr_key_def truthy_string_def)

lemma useGrowthData_unfold:
  "useGrowthData b useSWR f p =
     (case growth_series f (swr_data (useSWR (swr_key b p))) of
        Inl err \<Rightarrow> Inl err
      | Inr g \<Rightarrow> Inr \<lparr>growthData = g, isLoading = swr_isLoading (useSWR (swr_key b p)),
                       error = swr_error (useSWR (swr_key b p))\<rparr>)"
  by (simp add: useGrowthData_def Let_def)

lemma useGrowthData_Inr:
  assumes "useGrowthData b useSWR f p = Inr res"
  shows "growth_series f (swr_data (useSWR (swr_key b p))) = Inr (growthData res)
         \<and> isLoading res = swr_isLoading (useSWR (swr_key b p))
         \<and> error res = swr_error (useSWR (swr_key b p))"
  using assms by (auto simp: useGrowthData_unfold split: sum.splits)

lemma useGrowthData_holding:
  "p \<noteq> [] \<Longrightarrow> useGrowthData b (useSWR_holding r) f (Some p) =
     (case growth_series f (swr_data r) of
        Inl err \<Rightarrow> Inl err
      | Inr g \<Rightarrow> Inr \<lparr>growthData = g, isLoading = swr_isLoading r, error = swr_error r\<rparr>)"
  by (simp add: useGrowthData_def swr_key_Some useSWR_holding_def)

lemma growth_series_entries:
  "growth_series f (Some \<lparr>data = Some es\<rparr>) = forEach f es \<lparr>height = [], weight = []\<rparr>"
  by (simp add: growth_series_def)

lemma growth_series_no_entries:
  assumes "d = None \<or> (\<exists>p. d = Some p \<and> data p = None)"
  shows "growth_series f d = Inr \<lparr>height = [], weight = []\<rparr>"
  using assms by (auto simp: growth_series_def)



section \<open>The claims\<close>

subsection \<open>Suppressed fetch\<close>

text \<open>
  Claim C1. For a falsy \<open>patientUuid\<close> (\<^verbatim>\<open>undefined\<close> or the empty string) the key handed
  to \<^verbatim>\<open>useSWR\<close> is \<^verbatim>\<open>null\<close>, so the result depends on the collaborator only through what
  it reports for the null key; and when \<^verbatim>\<open>useSWR\<close> reports what it reports for a
  suppressed request (no data, no error, not loading), the hook returns the empty series,
  \<open>isLoading = False\<close> and no error.
\<close>

theorem falsy_patient_suppresses_fetch:
  assumes "p = None \<or> p = Some []"
  shows "swr_key b p = None
         \<and> (useSWR None = useSWR' None \<longrightarrow>
              useGrowthData b useSWR f p = useGrowthData b useSWR' f p)
         \<and> (useSWR None = \<lparr>swr_data = None, swr_error = None, swr_isLoading = False\<rparr> \<longrightarrow>
              useGrowthData b useSWR f p =
                Inr \<lparr>growthData = \<lparr>height = [], weight = []\<rparr>, isLoading = False,
                     error = None\<rparr>)"
proof -
  from assms have key: "swr_key b p = None"
    by (auto simp: swr_key_falsy)
  have same: "useGrowthData b useSWR f p = useGrowthData b useSWR' f p"
    if "useSWR None = useSWR' None"
    unfolding useGrowthData_unfold key that ..
  have idle: "useGrowthData b useSWR f p =
                Inr \<lparr>growthData = \<lparr>height = [], weight = []\<rparr>, isLoading = False,
                     error = None\<rparr>"
    if "useSWR None = \<lparr>swr_data = None, swr_error = None, swr_isLoading = False\<rparr>"
    unfolding useGrowthData_unfold key that
    by (simp add: growth_series_def)
  from key same idle show ?thesis
    by blast
qed

text \<open>With the empty string as patient, against a collaborator whose cache holds data and
  an error under every other key.\<close>

theorem falsy_patient_suppresses_fetch_witness:
  "swr_key ''/ws/fhir2/R4'' (Some []) = None
   \<and> useGrowthData ''/ws/fhir2/R4''
       (useSWR_holding
          \<lparr>swr_data = Some \<lparr>data = Some [observation ''2024-01-01'' 70 ''cm'' ''height'']\<rparr>,
           swr_error = Some ''Network Error'', swr_isLoading = True\<rparr>)
       toLocaleDateString_en_US (Some [])
     = Inr \<lparr>growthData = \<lparr>height = [], weight = []\<rparr>, isLoading = False, error = None\<rparr>"
  using falsy_patient_suppresses_fetch
    [of "Some []" "''/ws/fhir2/R4''"
        "useSWR_holding
          \<lparr>swr_data = Some \<lparr>data = Some [observation ''2024-01-01'' 70 ''cm'' ''height'']\<rparr>,
           swr_error = Some ''Network Error'', swr_isLoading = True\<rparr>"
        "useSWR_holding
          \<lparr>swr_data = Some \<lparr>data = Some [observation ''2024-01-01'' 70 ''cm'' ''height'']\<rparr>,
           swr_error = Some ''Network Error'', swr_isLoading = True\<rparr>"
        toLocaleDateString_en_US]
  by (simp add: useSWR_holding_def)

subsection \<open>Classification\<close>



subsection \<open>Validation\<close>




subsection \<open>Order\<close>



subsection \<open>Validation by truthiness\<close>

text \<open>
  Claim C5. An entry whose quantity has the value \<open>0\<close> or the empty string as unit yields
  no measurement, although the fields are present: line 50 tests the fields for
  truthiness. The callback returns \<^verbatim>\<open>growthData\<close> as it got it, and the loop treats the
  entries around it as if it were not in the list.
\<close>

theorem falsy_value_or_unit_yields_no_measurement:
  assumes "resource e = Some r" and "valueQuantity r = Some q"
    and "Quantity_value q = Some 0 \<or> Quantity_unit q = Some []"
  shows "measurement f r = None \<and> callback f e g = Inr g
         \<and> forEach f (xs @ e # ys) g0 = forEach f (xs @ ys) g0"
proof -
  from assms(2,3) have m: "measurement f r = None"
    by (auto simp: measurement_None_iff)
  with assms(1) have "\<And>g. callback f e g = Inr g"
    by (rule callback_skip)
  with m show ?thesis
    by (simp add: forEach_skip)
qed

text \<open>A weight of \<open>0\<close> kg and a weight of \<open>4\<close> without unit, before a complete entry.\<close>

theorem falsy_value_or_unit_yields_no_measurement_witness:
  "callback toLocaleDateString_en_US (observation ''2024-01-01'' 0 ''kg'' ''weight'')
     \<lparr>height = [], weight = []\<rparr> = Inr \<lparr>height = [], weight = []\<rparr>
   \<and> forEach toLocaleDateString_en_US
       [observation ''2024-01-01'' 0 ''kg'' ''weight'',
        observation ''2024-01-02'' 4 [] ''weight'',
        observation ''2024-01-03'' 5 ''kg'' ''weight'']
       \<lparr>height = [], weight = []\<rparr>
     = Inr \<lparr>height = [], weight = [\<lparr>date = ''1/3/2024'', value = 5, unit = ''kg''\<rparr>]\<rparr>"
proof -
  let ?f = toLocaleDateString_en_US
  let ?g = "\<lparr>height = [], weight = []\<rparr>"
  let ?e1 = "observation ''2024-01-01'' 0 ''kg'' ''weight''"
  let ?e2 = "observation ''2024-01-02'' 4 [] ''weight''"
  let ?e3 = "observation ''2024-01-03'' 5 ''kg'' ''weight''"
  have 1: "callback ?f ?e1 ?g = Inr ?g
           \<and> forEach ?f ([] @ ?e1 # [?e2, ?e3]) ?g = forEach ?f ([] @ [?e2, ?e3]) ?g"
    using falsy_value_or_unit_yields_no_measurement
      [OF observation_resource,
       where q = "\<lparr>Quantity_value = Some 0, Quantity_unit = Some ''kg''\<rparr>" and f = ?f
         and g = ?g and xs = "[]" and ys = "[?e2, ?e3]" and ?g0.0 = ?g]
    by simp
  have 2: "forEach ?f ([] @ ?e2 # [?e3]) ?g = forEach ?f ([] @ [?e3]) ?g"
    using falsy_value_or_unit_yields_no_measurement
      [OF observation_resource,
       where q = "\<lparr>Quantity_value = Some 4, Quantity_unit = Some []\<rparr>" and f = ?f
         and g = ?g and xs = "[]" and ys = "[?e3]" and ?g0.0 = ?g]
    by simp
  have 3: "forEach ?f [?e3] ?g
           = Inr \<lparr>height = [], weight = [\<lparr>date = ''1/3/2024'', value = 5, unit = ''kg''\<rparr>]\<rparr>"
    by (simp add: callback_observation toLowerCase_weight en_US_2024_01_03)
  from 1 2 3 show ?thesis by simp
qed

subsection \<open>Payloads without the response wrapper\<close>

text \<open>
  Claim C6. When the \<^verbatim>\<open>data\<close> that \<^verbatim>\<open>useSWR\<close> reports is absent, or is an object without
  the inner \<^verbatim>\<open>data\<close> array, the hook raises no exception and returns the empty height and
  weight sequences, next to the loading flag and error that \<^verbatim>\<open>useSWR\<close> reported.
\<close>

theorem missing_wrapper_yields_empty_series:
  assumes "swr_data (useSWR (swr_key b p)) = None
           \<or> (\<exists>d. swr_data (useSWR (swr_key b p)) = Some d \<and> data d = None)"
  shows "useGrowthData b useSWR f p =
           Inr \<lparr>growthData = \<lparr>height = [], weight = []\<rparr>,
                isLoading = swr_isLoading (useSWR (swr_key b p)),
                error = swr_error (useSWR (swr_key b p))\<rparr>"
  using growth_series_no_entries [OF assms, of f]
  by (simp add: useGrowthData_unfold)

text \<open>A payload without the inner array, and a request still in flight with no payload.\<close>

theorem missing_wrapper_yields_empty_series_witness:
  "useGrowthData ''/ws/fhir2/R4''
     (useSWR_holding \<lparr>swr_data = Some \<lparr>data = None\<rparr>, swr_error = (None :: string option),
        swr_isLoading = False\<rparr>)
     toLocaleDateString_en_US (Some ''123'')
   = Inr \<lparr>growthData = \<lparr>height = [], weight = []\<rparr>, isLoading = False, error = None\<rparr>
   \<and> useGrowthData ''/ws/fhir2/R4''
     (useSWR_holding \<lparr>swr_data = None, swr_error = (None :: string option),
        swr_isLoading = True\<rparr>)
     toLocaleDateString_en_US (Some ''123'')
   = Inr \<lparr>growthData = \<lparr>height = [], weight = []\<rparr>, isLoading = True, error = None\<rparr>"
  using
    missing_wrapper_yields_empty_series
      [of "useSWR_holding \<lparr>swr_data = Some \<lparr>data = None\<rparr>, swr_error = (None :: string option),
             swr_isLoading = False\<rparr>" "''/ws/fhir2/R4''" "Some ''123''" toLocaleDateString_en_US]
    missing_wrapper_yields_empty_series
      [of "useSWR_holding \<lparr>swr_data = None, swr_error = (None :: string option),
             swr_isLoading = True\<rparr>" "''/ws/fhir2/R4''" "Some ''123''" toLocaleDateString_en_US]
  by (simp add: swr_key_Some useSWR_holding_def)

subsection \<open>Errors of the fetch\<close>

text \<open>
  Claim C7, as amended. Whenever the hook returns, it returns the error (and the loading
  flag) that \<^verbatim>\<open>useSWR\<close> reports unchanged. It returns when \<^verbatim>\<open>useSWR\<close> reports no data or a
  payload without the inner array, with the empty series, and when \<^verbatim>\<open>useSWR\<close> reports a
  payload whose entries all carry a resource, with the sequences of the reported
  entries. The series is computed from \<^verbatim>\<open>data\<close> alone, whether or not an error is
  reported, so it is not empty in every error state.
\<close>

theorem error_passes_through_unchanged:
  "(useGrowthData b useSWR f p = Inr res \<longrightarrow>
      error res = swr_error (useSWR (swr_key b p))
      \<and> isLoading res = swr_isLoading (useSWR (swr_key b p)))
   \<and> (swr_data (useSWR (swr_key b p)) = None
      \<or> swr_data (useSWR (swr_key b p)) = Some \<lparr>data = None\<rparr> \<longrightarrow>
      useGrowthData b useSWR f p =
        Inr \<lparr>growthData = \<lparr>height = [], weight = []\<rparr>,
             isLoading = swr_isLoading (useSWR (swr_key b p)),
             error = swr_error (useSWR (swr_key b p))\<rparr>)
   \<and> (swr_data (useSWR (swr_key b p)) = Some \<lparr>data = Some es\<rparr>
        \<and> (\<forall>e\<in>set es. resource e \<noteq> None) \<longrightarrow>
        useGrowthData b useSWR f p =
          Inr \<lparr>growthData = \<lparr>height = sequence_of f ''height'' es,
                              weight = sequence_of f ''weight'' es\<rparr>,
               isLoading = swr_isLoading (useSWR (swr_key b p)),
               error = swr_error (useSWR (swr_key b p))\<rparr>)"
proof (intro conjI impI)
  assume "useGrowthData b useSWR f p = Inr res"
  from useGrowthData_Inr [OF this]
  show "error res = swr_error (useSWR (swr_key b p))"
    and "isLoading res = swr_isLoading (useSWR (swr_key b p))"
    by simp_all
next
  assume "swr_data (useSWR (swr_key b p)) = None
      \<or> swr_data (useSWR (swr_key b p)) = Some \<lparr>data = None\<rparr>"
  then have "growth_series f (swr_data (useSWR (swr_key b p)))
             = Inr \<lparr>height = [], weight = []\<rparr>"
    by (auto simp: growth_series_def)
  then show "useGrowthData b useSWR f p =
        Inr \<lparr>growthData = \<lparr>height = [], weight = []\<rparr>,
             isLoading = swr_isLoading (useSWR (swr_key b p)),
             error = swr_error (useSWR (swr_key b p))\<rparr>"
    by (simp add: useGrowthData_unfold)
next
  assume a: "swr_data (useSWR (swr_key b p)) = Some \<lparr>data = Some es\<rparr>
        \<and> (\<forall>e\<in>set es. resource e \<noteq> None)"
  then have "forEach f es \<lparr>height = [], weight = []\<rparr>
             = Inr \<lparr>height = sequence_of f ''height'' es, weight = sequence_of f ''weight'' es\<rparr>"
    by (simp add: forEach_sequence)
  with a show "useGrowthData b useSWR f p =
          Inr \<lparr>growthData = \<lparr>height = sequence_of f ''height'' es,
                              weight = sequence_of f ''weight'' es\<rparr>,
               isLoading = swr_isLoading (useSWR (swr_key b p)),
               error = swr_error (useSWR (swr_key b p))\<rparr>"
    by (simp add: useGrowthData_unfold growth_series_entries del: forEach.simps)
qed

text \<open>A first load that failed (an error and no data), and a failed revalidation (an error
  next to the data of the earlier load).\<close>

theorem error_passes_through_unchanged_witness:
  "useGrowthData ''/ws/fhir2/R4''
     (useSWR_holding \<lparr>swr_data = None, swr_error = Some ''Network Error'',
        swr_isLoading = False\<rparr>)
     toLocaleDateString_en_US (Some ''123'')
   = Inr \<lparr>growthData = \<lparr>height = [], weight = []\<rparr>, isLoading = False,
          error = Some ''Network Error''\<rparr>
   \<and> useGrowthData ''/ws/fhir2/R4''
     (useSWR_holding
        \<lparr>swr_data = Some \<lparr>data = Some [observation ''2024-01-01'' 70 ''cm'' ''height'']\<rparr>,
         swr_error = Some ''Network Error'', swr_isLoading = False\<rparr>)
     toLocaleDateString_en_US (Some ''123'')
   = Inr \<lparr>growthData =
            \<lparr>height = sequence_of toLocaleDateString_en_US ''height''
                        [observation ''2024-01-01'' 70 ''cm'' ''height''],
             weight = sequence_of toLocaleDateString_en_US ''weight''
                        [observation ''2024-01-01'' 70 ''cm'' ''height'']\<rparr>,
          isLoading = False, error = Some ''Network Error''\<rparr>
   \<and> error \<lparr>growthData = \<lparr>height = [], weight = []\<rparr>, isLoading = False,
          error = Some ''Network Error''\<rparr>
     = swr_error (useSWR_holding \<lparr>swr_data = None, swr_error = Some ''Network Error'',
          swr_isLoading = False\<rparr> (swr_key ''/ws/fhir2/R4'' (Some ''123'')))"
proof -
  let ?r1 = "\<lparr>swr_data = None, swr_error = Some ''Network Error'', swr_isLoading = False\<rparr>"
  let ?es = "[observation ''2024-01-01'' 70 ''cm'' ''height'']"
  let ?r2 = "\<lparr>swr_data = Some \<lparr>data = Some ?es\<rparr>, swr_error = Some ''Network Error'',
              swr_isLoading = False\<rparr>"
  let ?res = "\<lparr>growthData = \<lparr>height = [], weight = []\<rparr>, isLoading = False,
               error = Some ''Network Error''\<rparr>"
  have key: "swr_key ''/ws/fhir2/R4'' (Some ''123'')
             = Some ''/ws/fhir2/R4/Observation?patient=123&code=height,weight''"
    by (simp add: swr_key_Some)
  have at1: "useSWR_holding ?r1 (swr_key ''/ws/fhir2/R4'' (Some ''123'')) = ?r1"
    and at2: "useSWR_holding ?r2 (swr_key ''/ws/fhir2/R4'' (Some ''123'')) = ?r2"
    by (simp_all add: key useSWR_holding_def)
  have all: "\<forall>e\<in>set ?es. resource e \<noteq> None"
    by (simp add: observation_resource)
  note inst1 = error_passes_through_unchanged
         [where b = "''/ws/fhir2/R4''" and useSWR = "useSWR_holding ?r1"
            and p = "Some ''123''" and f = toLocaleDateString_en_US and es = "[]"
            and res = ?res]
  from inst1
  have 1: "useGrowthData ''/ws/fhir2/R4'' (useSWR_holding ?r1) toLocaleDateString_en_US
             (Some ''123'') = Inr ?res"
    unfolding at1 by simp
  with inst1
  have 3: "error ?res
           = swr_error (useSWR_holding ?r1 (swr_key ''/ws/fhir2/R4'' (Some ''123'')))"
    by blast
  from error_passes_through_unchanged
         [where b = "''/ws/fhir2/R4''" and useSWR = "useSWR_holding ?r2"
            and p = "Some ''123''" and f = toLocaleDateString_en_US and es = ?es] all
  have 2: "useGrowthData ''/ws/fhir2/R4'' (useSWR_holding ?r2) toLocaleDateString_en_US
             (Some ''123'')
           = Inr \<lparr>growthData =
                    \<lparr>height = sequence_of toLocaleDateString_en_US ''height'' ?es,
                     weight = sequence_of toLocaleDateString_en_US ''weight'' ?es\<rparr>,
                  isLoading = False, error = Some ''Network Error''\<rparr>"
    unfolding at2 by simp
  from 1 2 3 show ?thesis by blast
qed

text \<open>
  Claim C7 as stated fails: after a successful load, a revalidation that fails leaves
  \<^verbatim>\<open>useSWR\<close> reporting the error together with the data of the earlier load, and the
  series returned in that error state is not empty.
\<close>

theorem stale_data_with_error_gives_nonempty_series:
  "useGrowthData ''/ws/fhir2/R4''
     (useSWR_holding
        \<lparr>swr_data = Some \<lparr>data = Some [observation ''2024-01-01'' 70 ''cm'' ''height'']\<rparr>,
         swr_error = Some ''Network Error'', swr_isLoading = False\<rparr>)
     toLocaleDateString_en_US (Some ''123'')
   = Inr \<lparr>growthData = \<lparr>height = [\<lparr>date = ''1/1/2024'', value = 70, unit = ''cm''\<rparr>],
                          weight = []\<rparr>,
          isLoading = False, error = Some ''Network Error''\<rparr>
   \<and> useGrowthData ''/ws/fhir2/R4''
     (useSWR_holding
        \<lparr>swr_data = Some \<lparr>data = Some [observation ''2024-01-01'' 70 ''cm'' ''height'']\<rparr>,
         swr_error = Some ''Network Error'', swr_isLoading = False\<rparr>)
     toLocaleDateString_en_US (Some ''123'')
   \<noteq> Inr \<lparr>growthData = \<lparr>height = [], weight = []\<rparr>,
          isLoading = False, error = Some ''Network Error''\<rparr>"
  by (simp add: useGrowthData_holding growth_series_entries callback_observation
        toLowerCase_height en_US_2024_01_01)

subsection \<open>Determinism\<close>

text \<open>
  Claim C8. The series depends on the collaborator only through the payload it reports
  for the key of this patient: two evaluations of the hook for the same patient, in the
  same runtime, against collaborators that report the same payload, give the same series
  (or raise the same exception), whatever else the collaborators report.
\<close>

theorem series_determined_by_payload:
  assumes "swr_data (useSWR (swr_key b p)) = swr_data (useSWR' (swr_key b p))"
  shows "map_sum id growthData (useGrowthData b useSWR f p)
         = map_sum id growthData (useGrowthData b useSWR' f p)"
  using assms by (simp add: useGrowthData_unfold split: sum.splits)

text \<open>The same payload, once settled and once with an error while loading.\<close>

theorem series_determined_by_payload_witness:
  "map_sum id growthData
     (useGrowthData ''/ws/fhir2/R4''
        (useSWR_holding
           \<lparr>swr_data = Some \<lparr>data = Some [observation ''2024-01-01'' 70 ''cm'' ''height'']\<rparr>,
            swr_error = (None :: string option), swr_isLoading = False\<rparr>)
        toLocaleDateString_en_US (Some ''123''))
   = map_sum id growthData
     (useGrowthData ''/ws/fhir2/R4''
        (useSWR_holding
           \<lparr>swr_data = Some \<lparr>data = Some [observation ''2024-01-01'' 70 ''cm'' ''height'']\<rparr>,
            swr_error = Some ''Network Error'', swr_isLoading = True\<rparr>)
        toLocaleDateString_en_US (Some ''123''))"
  using series_determined_by_payload
    [of "useSWR_holding
           \<lparr>swr_data = Some \<lparr>data = Some [observation ''2024-01-01'' 70 ''cm'' ''height'']\<rparr>,
            swr_error = (None :: string option), swr_isLoading = False\<rparr>"
        "''/ws/fhir2/R4''" "Some ''123''"
        "useSWR_holding
           \<lparr>swr_data = Some \<lparr>data = Some [observation ''2024-01-01'' 70 ''cm'' ''height'']\<rparr>,
            swr_error = Some ''Network Error'', swr_isLoading = True\<rparr>"
        toLocaleDateString_en_US]
  by (simp add: swr_key_Some useSWR_holding_def)

subsection \<open>The scenario\<close>

text \<open>
  Claim C9, as amended. For patient \<^verbatim>\<open>123\<close> and a payload of one entry with timestamp
  \<^verbatim>\<open>2024-01-01\<close>, value \<open>70\<close>, unit \<^verbatim>\<open>cm\<close> and code \<^verbatim>\<open>height\<close>, the weight sequence is empty
  and the height sequence has one measurement with value \<open>70\<close>, unit \<^verbatim>\<open>cm\<close> and, as date,
  what the runtime's \<^verbatim>\<open>toLocaleDateString\<close> makes of \<^verbatim>\<open>2024-01-01\<close>: that is \<^verbatim>\<open>1/1/2024\<close> in
  the \<^verbatim>\<open>en-US\<close> locale in UTC.
\<close>

theorem scenario_single_height_entry:
  "useGrowthData b
     (useSWR_holding
        \<lparr>swr_data = Some \<lparr>data = Some [observation ''2024-01-01'' 70 ''cm'' ''height'']\<rparr>,
         swr_error = err, swr_isLoading = loading\<rparr>)
     f (Some ''123'')
   = Inr \<lparr>growthData = \<lparr>height = [\<lparr>date = f ''2024-01-01'', value = 70, unit = ''cm''\<rparr>],
                          weight = []\<rparr>,
          isLoading = loading, error = err\<rparr>
   \<and> toLocaleDateString_en_US ''2024-01-01'' = ''1/1/2024''"
  by (simp add: useGrowthData_holding growth_series_entries callback_observation
        toLowerCase_height en_US_2024_01_01)

text \<open>
  Claim C9 as stated fails in a runtime of another locale: line 52 calls
  \<^verbatim>\<open>toLocaleDateString()\<close> without a locale, and in \<^verbatim>\<open>en-GB\<close> the date of the scenario is
  \<^verbatim>\<open>01/01/2024\<close>.
\<close>

theorem scenario_date_in_en_GB_locale:
  "map_sum id growthData
     (useGrowthData ''/ws/fhir2/R4''
        (useSWR_holding
           \<lparr>swr_data = Some \<lparr>data = Some [observation ''2024-01-01'' 70 ''cm'' ''height'']\<rparr>,
            swr_error = (None :: string option), swr_isLoading = False\<rparr>)
        toLocaleDateString_en_GB (Some ''123''))
   = Inr \<lparr>height = [\<lparr>date = ''01/01/2024'', value = 70, unit = ''cm''\<rparr>], weight = []\<rparr>
   \<and> map_sum id growthData
     (useGrowthData ''/ws/fhir2/R4''
        (useSWR_holding
           \<lparr>swr_data = Some \<lparr>data = Some [observation ''2024-01-01'' 70 ''cm'' ''height'']\<rparr>,
            swr_error = (None :: string option), swr_isLoading = False\<rparr>)
        toLocaleDateString_en_GB (Some ''123''))
   \<noteq> Inr \<lparr>height = [\<lparr>date = ''1/1/2024'', value = 70, unit = ''cm''\<rparr>], weight = []\<rparr>"
  by (simp add: useGrowthData_holding growth_series_entries callback_observation
        toLowerCase_height en_GB_2024_01_01)

subsection \<open>The cache key\<close>

text \<open>
  Claim C10. For a non-empty patient identifier the key handed to \<^verbatim>\<open>useSWR\<close> is the base
  URL followed by \<^verbatim>\<open>/Observation?patient=\<close>, the identifier and \<^verbatim>\<open>&code=height,weight\<close>:
  that is the value of line 37's first argument; the hook's result is made of what
  \<^verbatim>\<open>useSWR\<close> reports for exactly that key (its data, loading flag and error), so it is the
  same for two collaborators that agree there; and a collaborator that reports back the
  key it was handed makes the hook return that URL. For an absent or empty identifier
  the key is \<^verbatim>\<open>null\<close>, and the same collaborator makes the hook return no key.
\<close>

theorem cache_key_is_query_url:
  "(p \<noteq> [] \<longrightarrow>
      swr_key b (Some p) = Some (b @ ''/Observation?patient='' @ p @ ''&code=height,weight'')
      \<and> (useSWR (Some (b @ ''/Observation?patient='' @ p @ ''&code=height,weight''))
           = useSWR' (Some (b @ ''/Observation?patient='' @ p @ ''&code=height,weight'')) \<longrightarrow>
           useGrowthData b useSWR f (Some p) = useGrowthData b useSWR' f (Some p))
      \<and> useGrowthData b useSWR f (Some p) =
          (case growth_series f
                  (swr_data
                     (useSWR (Some (b @ ''/Observation?patient='' @ p @ ''&code=height,weight''))))
           of Inl err \<Rightarrow> Inl err
            | Inr g \<Rightarrow>
                Inr \<lparr>growthData = g,
                     isLoading = swr_isLoading
                       (useSWR (Some (b @ ''/Observation?patient='' @ p @ ''&code=height,weight''))),
                     error = swr_error
                       (useSWR (Some (b @ ''/Observation?patient='' @ p @ ''&code=height,weight'')))\<rparr>)
      \<and> useGrowthData b useSWR_echo f (Some p) =
          Inr \<lparr>growthData = \<lparr>height = [], weight = []\<rparr>, isLoading = False,
               error = Some (b @ ''/Observation?patient='' @ p @ ''&code=height,weight'')\<rparr>)
   \<and> swr_key b None = None \<and> swr_key b (Some []) = None
   \<and> useGrowthData b useSWR_echo f None =
       Inr \<lparr>growthData = \<lparr>height = [], weight = []\<rparr>, isLoading = False, error = None\<rparr>
   \<and> useGrowthData b useSWR_echo f (Some []) =
       Inr \<lparr>growthData = \<lparr>height = [], weight = []\<rparr>, isLoading = False, error = None\<rparr>"
proof -
  let ?url = "b @ ''/Observation?patient='' @ p @ ''&code=height,weight''"
  have key: "swr_key b (Some p) = Some ?url" if "p \<noteq> []"
    using that by (rule swr_key_Some)
  have same: "useGrowthData b useSWR f (Some p) = useGrowthData b useSWR' f (Some p)"
    if "p \<noteq> []" and "useSWR (Some ?url) = useSWR' (Some ?url)"
    unfolding useGrowthData_unfold key [OF that(1)] that(2) ..
  have made: "useGrowthData b useSWR f (Some p) =
          (case growth_series f (swr_data (useSWR (Some ?url)))
           of Inl err \<Rightarrow> Inl err
            | Inr g \<Rightarrow>
                Inr \<lparr>growthData = g, isLoading = swr_isLoading (useSWR (Some ?url)),
                     error = swr_error (useSWR (Some ?url))\<rparr>)"
    if "p \<noteq> []"
    unfolding useGrowthData_unfold key [OF that] ..
  have echo: "useGrowthData b useSWR_echo f q =
      Inr \<lparr>growthData = \<lparr>height = [], weight = []\<rparr>, isLoading = False,
           error = swr_key b q\<rparr>" for q
    unfolding useGrowthData_unfold
    by (simp add: useSWR_echo_def growth_series_def)
  have echo_url: "useGrowthData b useSWR_echo f (Some p) =
      Inr \<lparr>growthData = \<lparr>height = [], weight = []\<rparr>, isLoading = False, error = Some ?url\<rparr>"
    if "p \<noteq> []"
    unfolding echo key [OF that] ..
  have echo_null: "useGrowthData b useSWR_echo f None =
       Inr \<lparr>growthData = \<lparr>height = [], weight = []\<rparr>, isLoading = False, error = None\<rparr>"
    "useGrowthData b useSWR_echo f (Some []) =
       Inr \<lparr>growthData = \<lparr>height = [], weight = []\<rparr>, isLoading = False, error = None\<rparr>"
    unfolding echo swr_key_falsy by (rule refl)+
  from key same made echo_url echo_null swr_key_falsy [of b] show ?thesis
    by blast
qed

text \<open>Patient \<^verbatim>\<open>123\<close> under the base URL \<^verbatim>\<open>/ws/fhir2/R4\<close>: the key, and what the hook
  returns against the collaborator that reports the key back.\<close>

theorem cache_key_is_query_url_witness:
  "swr_key ''/ws/fhir2/R4'' (Some ''123'')
   = Some ''/ws/fhir2/R4/Observation?patient=123&code=height,weight''
   \<and> useGrowthData ''/ws/fhir2/R4'' useSWR_echo toLocaleDateString_en_US (Some ''123'')
   = Inr \<lparr>growthData = \<lparr>height = [], weight = []\<rparr>, isLoading = False,
          error = Some ''/ws/fhir2/R4/Observation?patient=123&code=height,weight''\<rparr>
   \<and> useGrowthData ''/ws/fhir2/R4'' useSWR_echo toLocaleDateString_en_US (Some [])
   = Inr \<lparr>growthData = \<lparr>height = [], weight = []\<rparr>, isLoading = False, error = None\<rparr>"
proof -
  let ?url = "''/ws/fhir2/R4'' @ ''/Observation?patient='' @ ''123'' @ ''&code=height,weight''"
  note inst = cache_key_is_query_url
    [where p = "''123''" and b = "''/ws/fhir2/R4''"
       and useSWR = useSWR_echo and useSWR' = useSWR_echo
       and f = toLocaleDateString_en_US]
  have nonempty: "''123'' \<noteq> []"
    by simp
  from inst nonempty have key: "swr_key ''/ws/fhir2/R4'' (Some ''123'') = Some ?url"
    by blast
  from inst nonempty
  have echo: "useGrowthData ''/ws/fhir2/R4'' useSWR_echo toLocaleDateString_en_US (Some ''123'')
      = Inr \<lparr>growthData = \<lparr>height = [], weight = []\<rparr>, isLoading = False,
             error = Some ?url\<rparr>"
    by blast
  from inst
  have null: "useGrowthData ''/ws/fhir2/R4'' useSWR_echo toLocaleDateString_en_US (Some [])
      = Inr \<lparr>growthData = \<lparr>height = [], weight = []\<rparr>, isLoading = False, error = None\<rparr>"
    by blast
  from key echo null show ?thesis
    by simp
qed

end
